theory Spec2Isabelle
  imports Complex_Main
begin

section \<open>Numeric output of the stream library\<close>

text \<open>
  The serializers of the repository write into a \<^verbatim>\<open>std::ostringstream\<close> with
  \<^verbatim>\<open>operator<<\<close>. The text an inserted number becomes is fixed by the C++ standard
  (\<^verbatim>\<open>num_put\<close>, in terms of \<^verbatim>\<open>printf\<close>): an \<^verbatim>\<open>int\<close> is written in decimal
  (\<^verbatim>\<open>%d\<close>), a \<^verbatim>\<open>double\<close> as \<^verbatim>\<open>%.<precision>g\<close> while the stream's
  floatfield is unset and as \<^verbatim>\<open>%.<precision>f\<close> once \<^verbatim>\<open>std::fixed\<close> was inserted.

  A C++ \<^verbatim>\<open>int\<close> is modelled by an \<^typ>\<open>int\<close> (the serializers only print it, so no
  arithmetic can overflow) and a finite \<^verbatim>\<open>double\<close> by the \<^typ>\<open>real\<close> it denotes.
  Infinities, NaN and the negative zero are outside this model of the serializers.
  A decimal conversion rounds the exact value to the nearest decimal of the requested
  length, a tie going to the even digit (the behaviour of glibc in the default rounding
  mode).
\<close>

definition digit_char :: "nat \<Rightarrow> char" where
  "digit_char d = ''0123456789'' ! d"

fun show_nat :: "nat \<Rightarrow> string" where
  "show_nat n =
     (if n < 10 then [digit_char n] else show_nat (n div 10) @ [digit_char (n mod 10)])"

declare show_nat.simps [simp del]

definition show_int :: "int \<Rightarrow> string" where
  "show_int i = (if i < 0 then CHR ''-'' # show_nat (nat (- i)) else show_nat (nat i))"

text \<open>\<open>last_digits p n\<close>: the \<open>p\<close> lowest decimal digits of \<open>n\<close>, highest first.\<close>

primrec last_digits :: "nat \<Rightarrow> nat \<Rightarrow> string" where
  "last_digits 0 n = []"
| "last_digits (Suc p) n = last_digits p (n div 10) @ [digit_char (n mod 10)]"

definition round_half_even :: "real \<Rightarrow> int" where
  "round_half_even y =
     (let r = \<lfloor>y\<rfloor>; d = y - of_int r
      in if d < 1 / 2 then r else if 1 / 2 < d then r + 1 else if even r then r else r + 1)"

text \<open>\<^verbatim>\<open>%.pf\<close>: sign, integer part, and \<open>p\<close> digits after the decimal point.\<close>

definition fmt_fixed :: "nat \<Rightarrow> real \<Rightarrow> string" where
  "fmt_fixed p x =
     (let n = nat (round_half_even (\<bar>x\<bar> * 10 ^ p))
      in (if x < 0 then ''-'' else '''') @ show_nat (n div 10 ^ p) @
         (if p = 0 then '''' else CHR ''.'' # last_digits p n))"

text \<open>
  The decimal exponent of a positive value \<open>a\<close>: the \<open>e\<close> with
  \<open>10 ^ e \<le> a < 10 ^ (e + 1)\<close>, found by scaling \<open>a\<close> into \<open>[1, 10)\<close>.
\<close>

function scale_down :: "real \<Rightarrow> nat" where
  "scale_down a = (if 10 \<le> a then Suc (scale_down (a / 10)) else 0)"
  by pat_completeness auto
termination
proof (relation "measure (\<lambda>a. nat \<lfloor>a\<rfloor>)")
  show "wf (measure (\<lambda>a::real. nat \<lfloor>a\<rfloor>))" by simp
next
  fix a :: real
  assume a: "10 \<le> a"
  have "a / 10 < of_int \<lfloor>a\<rfloor>"
  proof -
    have "a - 1 < of_int \<lfloor>a\<rfloor>" by linarith
    moreover have "a / 10 \<le> a - 1" using a by simp
    ultimately show ?thesis by linarith
  qed
  then have "\<lfloor>a / 10\<rfloor> < \<lfloor>a\<rfloor>" by (simp add: floor_less_iff)
  moreover have "0 < \<lfloor>a\<rfloor>" using a by linarith
  ultimately show "(a / 10, a) \<in> measure (\<lambda>a. nat \<lfloor>a\<rfloor>)" by simp
qed

function scale_up :: "real \<Rightarrow> nat" where
  "scale_up a = (if 0 < a \<and> a < 1 then Suc (scale_up (a * 10)) else 0)"
  by pat_completeness auto
termination
proof (relation "measure (\<lambda>a. nat \<lfloor>1 / a\<rfloor>)")
  show "wf (measure (\<lambda>a::real. nat \<lfloor>1 / a\<rfloor>))" by simp
next
  fix a :: real
  assume "0 < a \<and> a < 1"
  then have a: "0 < a" "a < 1" by simp_all
  have key: "\<lfloor>y / 10\<rfloor> < \<lfloor>y\<rfloor>" if y: "1 < y" for y :: real
  proof -
    have fl: "1 \<le> \<lfloor>y\<rfloor>" using y by linarith
    have "y / 10 < of_int \<lfloor>y\<rfloor>"
    proof (cases "y < 10")
      case True
      then have "y / 10 < 1" by simp
      also have "1 \<le> (of_int \<lfloor>y\<rfloor> :: real)" using fl by linarith
      finally show ?thesis .
    next
      case False
      then have "y / 10 \<le> y - 1" by simp
      moreover have "y - 1 < of_int \<lfloor>y\<rfloor>" by linarith
      ultimately show ?thesis by linarith
    qed
    then show ?thesis by (simp only: floor_less_iff)
  qed
  have "1 < 1 / a" using a by simp
  then have lt: "\<lfloor>1 / a / 10\<rfloor> < \<lfloor>1 / a\<rfloor>" and fl: "1 \<le> \<lfloor>1 / a\<rfloor>"
    using key [of "1 / a"] by linarith+
  have e: "1 / (a * 10) = 1 / a / 10" by simp
  have "nat \<lfloor>1 / (a * 10)\<rfloor> < nat \<lfloor>1 / a\<rfloor>"
    unfolding e using lt fl by linarith
  then show "(a * 10, a) \<in> measure (\<lambda>a. nat \<lfloor>1 / a\<rfloor>)" by simp
qed

declare scale_down.simps [simp del] scale_up.simps [simp del]

definition dec_exponent :: "real \<Rightarrow> int" where
  "dec_exponent a = (if 10 \<le> a then int (scale_down a) else - int (scale_up a))"

definition scale10 :: "real \<Rightarrow> int \<Rightarrow> real" where
  "scale10 a e = (if 0 \<le> e then a * 10 ^ nat e else a / 10 ^ nat (- e))"

text \<open>
  Without the \<^verbatim>\<open>#\<close> flag \<^verbatim>\<open>%g\<close> drops the trailing zeros of the fraction, and the
  decimal point with them when no digit is left.
\<close>

definition fraction_part :: "string \<Rightarrow> string" where
  "fraction_part ds =
     (let s = rev (dropWhile (\<lambda>c. c = CHR ''0'') (rev ds))
      in if s = [] then [] else CHR ''.'' # s)"

text \<open>
  \<^verbatim>\<open>%.Pg\<close> (a precision of 0 counts as 1): the value is rounded to \<open>P\<close> significant
  digits \<open>m\<close> with decimal exponent \<open>X\<close>; for \<open>-4 \<le> X < P\<close> it is written in
  fixed notation with \<open>P - 1 - X\<close> decimals, otherwise in scientific notation with an
  exponent of at least two digits.

  \<open>fmt_digits P m X\<close> writes the \<open>P\<close> significant digits \<open>m\<close> with exponent \<open>X\<close>.
  \<open>fmt_rounded P e0 m0\<close> takes the digits \<open>m0\<close> obtained by rounding at the exponent
  \<open>e0\<close> of the unrounded value: when the rounding carried into a further digit
  (\<open>10 ^ P \<le> m0\<close>, as for 999999.5), the exponent is one more. \<open>fmt_exp P a e0\<close> rounds
  the positive value \<open>a\<close> of exponent \<open>e0\<close> to \<open>P\<close> significant digits.
\<close>

definition fmt_digits :: "nat \<Rightarrow> nat \<Rightarrow> int \<Rightarrow> string" where
  "fmt_digits P m X =
     (if - 4 \<le> X \<and> X < int P
      then (let k = nat (int P - 1 - X)
            in show_nat (m div 10 ^ k) @ fraction_part (last_digits k m))
      else digit_char (m div 10 ^ (P - 1)) # fraction_part (last_digits (P - 1) m) @
           CHR ''e'' # (if X < 0 then CHR ''-'' else CHR ''+'') #
           (if nat \<bar>X\<bar> < 10 then ''0'' else '''') @ show_nat (nat \<bar>X\<bar>))"

definition fmt_rounded :: "nat \<Rightarrow> int \<Rightarrow> nat \<Rightarrow> string" where
  "fmt_rounded P e0 m0 =
     (if 10 ^ P \<le> m0 then fmt_digits P (m0 div 10) (e0 + 1) else fmt_digits P m0 e0)"

definition fmt_exp :: "nat \<Rightarrow> real \<Rightarrow> int \<Rightarrow> string" where
  "fmt_exp P a e0 = fmt_rounded P e0 (nat (round_half_even (scale10 a (int P - 1 - e0))))"

definition fmt_general :: "nat \<Rightarrow> real \<Rightarrow> string" where
  "fmt_general prec x =
     (if x = 0 then ''0''
      else (if x < 0 then ''-'' else '''') @
           fmt_exp (if prec = 0 then 1 else prec) \<bar>x\<bar> (dec_exponent \<bar>x\<bar>))"

section \<open>The output string stream\<close>

text \<open>
  The state of a \<^verbatim>\<open>std::ostringstream\<close> that the serializers depend on: the text written
  so far and the two formatting settings of floating-point output. Both settings are
  sticky: \<^verbatim>\<open>std::fixed\<close> and \<^verbatim>\<open>std::setprecision\<close> stay in force for every later
  insertion into the same stream. A fresh stream has the floatfield unset and the
  precision 6.
\<close>

datatype floatfield = defaultfloat | fixed

record ostringstream =
  buf :: string
  floatfield_flag :: floatfield
  precision :: nat

definition new_ostringstream :: ostringstream where
  "new_ostringstream = \<lparr>buf = [], floatfield_flag = defaultfloat, precision = 6\<rparr>"

definition put_string :: "string \<Rightarrow> ostringstream \<Rightarrow> ostringstream" where
  "put_string s os = os\<lparr>buf := buf os @ s\<rparr>"

definition put_int :: "int \<Rightarrow> ostringstream \<Rightarrow> ostringstream" where
  "put_int i os = os\<lparr>buf := buf os @ show_int i\<rparr>"

definition put_double :: "real \<Rightarrow> ostringstream \<Rightarrow> ostringstream" where
  "put_double x os =
     os\<lparr>buf := buf os @
       (case floatfield_flag os of
          fixed \<Rightarrow> fmt_fixed (precision os) x
        | defaultfloat \<Rightarrow> fmt_general (precision os) x)\<rparr>"

definition std_fixed :: "ostringstream \<Rightarrow> ostringstream" where
  "std_fixed os = os\<lparr>floatfield_flag := fixed\<rparr>"

definition setprecision :: "nat \<Rightarrow> ostringstream \<Rightarrow> ostringstream" where
  "setprecision n os = os\<lparr>precision := n\<rparr>"

definition str :: "ostringstream \<Rightarrow> string" where
  "str os = buf os"

text \<open>A chain \<^verbatim>\<open>json << a << b << ...\<close> applies the insertions from left to right.\<close>

definition inserts :: "(ostringstream \<Rightarrow> ostringstream) list \<Rightarrow> ostringstream \<Rightarrow> ostringstream" where
  "inserts ops os = foldl (\<lambda>s f. f s) os ops"

text \<open>
  The loop shared by every serializer of a sequence field:
  \<^verbatim>\<open>for (size_t i = 0; i < v.size(); ++i) { if (i > 0) json << ","; json << serialize(v[i]); }\<close>
\<close>

function put_sequence :: "('a \<Rightarrow> string) \<Rightarrow> 'a list \<Rightarrow> nat \<Rightarrow> ostringstream \<Rightarrow> ostringstream" where
  "put_sequence ser v i os =
     (if i < length v
      then put_sequence ser v (Suc i)
             (put_string (ser (v ! i)) (if 0 < i then put_string '','' os else os))
      else os)"
  by pat_completeness auto
termination
  by (relation "measure (\<lambda>(ser, v, i, os). length v - i)") auto

declare put_sequence.simps [simp del]

text \<open>The text that the loop writes for a sequence, starting from a fresh stream.\<close>

definition sequence_text :: "('a \<Rightarrow> string) \<Rightarrow> 'a list \<Rightarrow> string" where
  "sequence_text ser v = str (put_sequence ser v 0 new_ostringstream)"

section \<open>working\_reflection\_demo.cpp and mock\_reflection\_demo.cpp\<close>

text \<open>
  Both demo programs declare the same two structs. Their \<^verbatim>\<open>Person\<close> has three members
  and is a different type from the \<^verbatim>\<open>Person\<close> of comprehensive\_benchmark.cpp; it is
  called \<open>DemoPerson\<close> here.
\<close>

record DemoPerson =
  name :: string
  age :: int
  salary :: real

record Company =
  name :: string
  employees :: "DemoPerson list"
  revenue :: real

text \<open>working\_reflection\_demo.cpp: \<^verbatim>\<open>mock_serialization::ReflectionSerializer<Person>::serialize\<close>\<close>

definition demo_ReflectionSerializer_Person_serialize :: "DemoPerson \<Rightarrow> string" where
  "demo_ReflectionSerializer_Person_serialize obj = str (inserts
     [put_string ''{\"name\":\"'', put_string (DemoPerson.name obj), put_string ''\",'',
      put_string ''\"age\":'', put_int (age obj), put_string '','',
      put_string ''\"salary\":'', put_double (salary obj), put_string ''}'']
     new_ostringstream)"

text \<open>working\_reflection\_demo.cpp: \<^verbatim>\<open>mock_serialization::ReflectionSerializer<Company>::serialize\<close>\<close>

definition demo_ReflectionSerializer_Company_serialize :: "Company \<Rightarrow> string" where
  "demo_ReflectionSerializer_Company_serialize obj = str (inserts
     [put_string ''{\"name\":\"'', put_string (Company.name obj), put_string ''\",'',
      put_string ''\"revenue\":'', put_double (revenue obj), put_string '','',
      put_string ''\"employees\":['',
      put_sequence demo_ReflectionSerializer_Person_serialize (employees obj) 0,
      put_string '']}'']
     new_ostringstream)"

text \<open>
  The manual serialization that \<^verbatim>\<open>benchmarks::benchmark_serialization\<close> of both demo
  programs times against the serializer: the body of its second loop.
\<close>

definition demo_manual_serialize_Person :: "DemoPerson \<Rightarrow> string" where
  "demo_manual_serialize_Person person = str (inserts
     [put_string ''{\"name\":\"'', put_string (DemoPerson.name person), put_string ''\",'',
      put_string ''\"age\":'', put_int (age person), put_string '','',
      put_string ''\"salary\":'', put_double (salary person), put_string ''}'']
     new_ostringstream)"

text \<open>
  mock\_reflection\_demo.cpp has one generic \<^verbatim>\<open>ReflectionSerializer<T>::serialize\<close> that
  selects the members to write by \<^verbatim>\<open>if constexpr\<close> on \<open>T\<close>. An object of the type
  \<open>T\<close> the template is instantiated at is a \<open>Person_obj\<close>, a \<open>Company_obj\<close>, or an
  object of any other type, which has no registered member. The nested call
  \<^verbatim>\<open>serialize(obj.employees[i])\<close> serializes a \<^verbatim>\<open>Person\<close>.
\<close>

datatype 'a mock_object = Person_obj DemoPerson | Company_obj Company | Other_obj 'a

text \<open>\<^verbatim>\<open>mock_meta::get_member_names<T>\<close> and \<^verbatim>\<open>mock_meta::reflexpr<T>().member_count\<close>\<close>

fun mock_get_member_names :: "'a mock_object \<Rightarrow> string list" where
  "mock_get_member_names (Person_obj p) = [''name'', ''age'', ''salary'']"
| "mock_get_member_names (Company_obj c) = [''name'', ''employees'', ''revenue'']"
| "mock_get_member_names (Other_obj x) = []"

fun mock_member_count :: "'a mock_object \<Rightarrow> nat" where
  "mock_member_count (Person_obj p) = 3"
| "mock_member_count (Company_obj c) = 3"
| "mock_member_count (Other_obj x) = 0"

definition mock_Person_members :: "DemoPerson \<Rightarrow> (ostringstream \<Rightarrow> ostringstream) list" where
  "mock_Person_members obj =
     [put_string ''\"name\":\"'', put_string (DemoPerson.name obj), put_string ''\",'',
      put_string ''\"age\":'', put_int (age obj), put_string '','',
      put_string ''\"salary\":'', put_double (salary obj)]"

definition mock_ReflectionSerializer_serialize :: "'a mock_object \<Rightarrow> string" where
  "mock_ReflectionSerializer_serialize obj = str (inserts
     ([put_string ''{''] @
      (case obj of
         Person_obj p \<Rightarrow> mock_Person_members p
       | Company_obj c \<Rightarrow>
           [put_string ''\"name\":\"'', put_string (Company.name c), put_string ''\",'',
            put_string ''\"revenue\":'', put_double (revenue c), put_string '','',
            put_string ''\"employees\":['',
            put_sequence
              (\<lambda>e. str (inserts ([put_string ''{''] @ mock_Person_members e @ [put_string ''}''])
                         new_ostringstream))
              (employees c) 0,
            put_string '']'']
       | Other_obj x \<Rightarrow> []) @
      [put_string ''}''])
     new_ostringstream)"

section \<open>comprehensive\_benchmark.cpp: the record types and their serializers\<close>

record Person =
  name :: string
  age :: int
  salary :: real
  department :: string
  is_active :: bool

record Product =
  name :: string
  price :: real
  quantity :: int
  category :: string
  rating :: real

record Order =
  order_id :: int
  customer_name :: string
  items :: "Product list"
  total_amount :: real
  order_date :: string

definition get_member_names_Person :: "string list" where
  "get_member_names_Person = [''name'', ''age'', ''salary'', ''department'', ''is_active'']"

definition get_member_names_Product :: "string list" where
  "get_member_names_Product = [''name'', ''price'', ''quantity'', ''category'', ''rating'']"

definition get_member_names_Order :: "string list" where
  "get_member_names_Order =
     [''order_id'', ''customer_name'', ''items'', ''total_amount'', ''order_date'']"

text \<open>\<^verbatim>\<open>enhanced_serialization::ReflectionSerializer<Person>::serialize\<close>\<close>

definition ReflectionSerializer_Person_serialize :: "Person \<Rightarrow> string" where
  "ReflectionSerializer_Person_serialize obj = str (inserts
     [put_string ''{\"name\":\"'', put_string (Person.name obj), put_string ''\",'',
      put_string ''\"age\":'', put_int (age obj), put_string '','',
      put_string ''\"salary\":'', std_fixed, setprecision 2, put_double (salary obj),
      put_string '','',
      put_string ''\"department\":\"'', put_string (department obj), put_string ''\",'',
      put_string ''\"is_active\":'', put_string (if is_active obj then ''true'' else ''false''),
      put_string ''}'']
     new_ostringstream)"

text \<open>\<^verbatim>\<open>enhanced_serialization::ReflectionSerializer<Product>::serialize\<close>\<close>

definition ReflectionSerializer_Product_serialize :: "Product \<Rightarrow> string" where
  "ReflectionSerializer_Product_serialize obj = str (inserts
     [put_string ''{\"name\":\"'', put_string (Product.name obj), put_string ''\",'',
      put_string ''\"price\":'', std_fixed, setprecision 2, put_double (price obj),
      put_string '','',
      put_string ''\"quantity\":'', put_int (quantity obj), put_string '','',
      put_string ''\"category\":\"'', put_string (category obj), put_string ''\",'',
      put_string ''\"rating\":'', put_double (rating obj), put_string ''}'']
     new_ostringstream)"

text \<open>\<^verbatim>\<open>enhanced_serialization::ReflectionSerializer<Order>::serialize\<close>\<close>

definition ReflectionSerializer_Order_serialize :: "Order \<Rightarrow> string" where
  "ReflectionSerializer_Order_serialize obj = str (inserts
     [put_string ''{\"order_id\":'', put_int (order_id obj), put_string '','',
      put_string ''\"customer_name\":\"'', put_string (customer_name obj), put_string ''\",'',
      put_string ''\"total_amount\":'', put_double (total_amount obj), put_string '','',
      put_string ''\"order_date\":\"'', put_string (order_date obj), put_string ''\",'',
      put_string ''\"items\":['',
      put_sequence ReflectionSerializer_Product_serialize (items obj) 0,
      put_string '']}'']
     new_ostringstream)"

text \<open>\<^verbatim>\<open>advanced_benchmarks::manual_serialize<Person>\<close>\<close>

definition manual_serialize_Person :: "Person \<Rightarrow> string" where
  "manual_serialize_Person obj = str (inserts
     [put_string ''{\"name\":\"'', put_string (Person.name obj), put_string ''\",'',
      put_string ''\"age\":'', put_int (age obj), put_string '','',
      put_string ''\"salary\":'', put_double (salary obj), put_string '','',
      put_string ''\"department\":\"'', put_string (department obj), put_string ''\",'',
      put_string ''\"is_active\":'', put_string (if is_active obj then ''true'' else ''false''),
      put_string ''}'']
     new_ostringstream)"

text \<open>\<^verbatim>\<open>advanced_benchmarks::manual_serialize<Product>\<close>\<close>

definition manual_serialize_Product :: "Product \<Rightarrow> string" where
  "manual_serialize_Product obj = str (inserts
     [put_string ''{\"name\":\"'', put_string (Product.name obj), put_string ''\",'',
      put_string ''\"price\":'', put_double (price obj), put_string '','',
      put_string ''\"quantity\":'', put_int (quantity obj), put_string '','',
      put_string ''\"category\":\"'', put_string (category obj), put_string ''\",'',
      put_string ''\"rating\":'', put_double (rating obj), put_string ''}'']
     new_ostringstream)"

section \<open>comprehensive\_benchmark.cpp: the benchmark harness\<close>

text \<open>
  The harness computes with \<^verbatim>\<open>double\<close>. Its statistics are modelled in exact real
  arithmetic (no rounding error, no overflow); none of their divisions can be by zero.
  \<^verbatim>\<open>size_t\<close> counts are natural numbers. The members \<^verbatim>\<open>measurements_\<close>,
  \<^verbatim>\<open>name_\<close>, \<^verbatim>\<open>value_\<close> and \<^verbatim>\<open>active_\<close> of the source end in an underscore, which
  an Isabelle name cannot; they end in \<open>_m\<close> here.
\<close>

record BenchmarkResult =
  min_time_ms :: real
  max_time_ms :: real
  avg_time_ms :: real
  std_dev_ms :: real
  iterations :: nat
  data_size :: nat

record AdvancedBenchmark =
  measurements_m :: "real list"

definition new_AdvancedBenchmark :: AdvancedBenchmark where
  "new_AdvancedBenchmark = \<lparr>measurements_m = []\<rparr>"

definition clear :: "AdvancedBenchmark \<Rightarrow> AdvancedBenchmark" where
  "clear b = b\<lparr>measurements_m := []\<rparr>"

definition add_measurement :: "real \<Rightarrow> AdvancedBenchmark \<Rightarrow> AdvancedBenchmark" where
  "add_measurement time_ms b = b\<lparr>measurements_m := measurements_m b @ [time_ms]\<rparr>"

text \<open>
  \<^verbatim>\<open>std::min_element\<close> and \<^verbatim>\<open>std::max_element\<close> on a non-empty range: the first
  element is the candidate, and a later element replaces it when it is strictly
  smaller (strictly larger). \<^verbatim>\<open>std::accumulate\<close> adds from the left, starting at 0.
\<close>

definition min_element :: "real list \<Rightarrow> real" where
  "min_element xs = foldl (\<lambda>smallest x. if x < smallest then x else smallest) (hd xs) (tl xs)"

definition max_element :: "real list \<Rightarrow> real" where
  "max_element xs = foldl (\<lambda>largest x. if largest < x then x else largest) (hd xs) (tl xs)"

definition accumulate :: "real list \<Rightarrow> real \<Rightarrow> real" where
  "accumulate xs init = foldl (+) init xs"

definition get_result :: "AdvancedBenchmark \<Rightarrow> nat \<Rightarrow> BenchmarkResult" where
  "get_result b data_size' =
     (if measurements_m b = []
      then \<lparr>min_time_ms = 0, max_time_ms = 0, avg_time_ms = 0, std_dev_ms = 0,
            iterations = 0, data_size = data_size'\<rparr>
      else
        let ms = measurements_m b;
            min_it = min_element ms;
            max_it = max_element ms;
            sum = accumulate ms 0;
            avg = sum / real (length ms);
            variance = foldl (\<lambda>variance time. variance + (time - avg) * (time - avg)) 0 ms;
            variance = variance / real (length ms);
            std_dev = sqrt variance
        in \<lparr>min_time_ms = min_it, max_time_ms = max_it, avg_time_ms = avg,
            std_dev_ms = std_dev, iterations = length ms, data_size = data_size'\<rparr>)"

text \<open>
  The result of the \<^verbatim>\<open>double\<close> expression that the comparison routines print as the
  overhead. Here a division by zero is possible, so the value is a finite real, an
  infinity or NaN, with the IEEE 754 rules for the operations involved. The measured
  times are never the negative zero.
\<close>

datatype ieee_double = Finite real | PlusInfinity | MinusInfinity | NaN

definition ieee_divide :: "real \<Rightarrow> real \<Rightarrow> ieee_double" where
  "ieee_divide a b =
     (if b \<noteq> 0 then Finite (a / b)
      else if 0 < a then PlusInfinity else if a < 0 then MinusInfinity else NaN)"

fun ieee_minus :: "ieee_double \<Rightarrow> real \<Rightarrow> ieee_double" where
  "ieee_minus (Finite a) c = Finite (a - c)"
| "ieee_minus PlusInfinity c = PlusInfinity"
| "ieee_minus MinusInfinity c = MinusInfinity"
| "ieee_minus NaN c = NaN"

fun ieee_times :: "ieee_double \<Rightarrow> real \<Rightarrow> ieee_double" where
  "ieee_times (Finite a) c = Finite (a * c)"
| "ieee_times PlusInfinity c =
     (if 0 < c then PlusInfinity else if c < 0 then MinusInfinity else NaN)"
| "ieee_times MinusInfinity c =
     (if 0 < c then MinusInfinity else if c < 0 then PlusInfinity else NaN)"
| "ieee_times NaN c = NaN"

text \<open>
  The overhead expression of \<^verbatim>\<open>benchmark_serialization_comprehensive\<close>
  (comprehensive\_benchmark.cpp) and of \<^verbatim>\<open>benchmark_serialization\<close> in
  working\_reflection\_demo.cpp: guarded by \<^verbatim>\<open>manual > 0\<close>.
\<close>

definition overhead_comprehensive :: "BenchmarkResult \<Rightarrow> BenchmarkResult \<Rightarrow> ieee_double" where
  "overhead_comprehensive reflection_result manual_result =
     (if 0 < avg_time_ms manual_result
      then ieee_times
             (ieee_minus (ieee_divide (avg_time_ms reflection_result) (avg_time_ms manual_result)) 1)
             100
      else Finite 0)"

definition overhead_working_demo :: "real \<Rightarrow> real \<Rightarrow> ieee_double" where
  "overhead_working_demo reflection_time manual_time =
     (if 0 < manual_time
      then ieee_times (ieee_minus (ieee_divide reflection_time manual_time) 1) 100
      else Finite 0)"

text \<open>
  The overhead expression of \<^verbatim>\<open>benchmark_serialization\<close> in mock\_reflection\_demo.cpp:
  \<^verbatim>\<open>((reflection_time / manual_time - 1.0) * 100.0)\<close>, with no guard.
\<close>

definition overhead_mock_demo :: "real \<Rightarrow> real \<Rightarrow> ieee_double" where
  "overhead_mock_demo reflection_time manual_time =
     ieee_times (ieee_minus (ieee_divide reflection_time manual_time) 1) 100"

text \<open>
  \<^verbatim>\<open>benchmark_serialization_comprehensive(objects, runs)\<close>. What the clock measures is
  an input of the model: \<open>elapsed run\<close> is the pair of microsecond counts that
  \<^verbatim>\<open>duration_cast<microseconds>\<close> yields in run number \<open>run\<close> for the loop over the
  generic serializer and for the loop over the manual one. The serialized strings are
  discarded by the source, so only the number of objects matters. The routine prints the
  two results and the overhead; the model returns them. The source has no
  \<^verbatim>\<open>throw\<close>: the routine always completes, which the model writes as \<open>Inr\<close>; the
  error value exists only so that a failure could be told from a result.
\<close>

datatype harness_error = InvalidConfigurationError

function benchmark_runs ::
  "(int \<Rightarrow> int \<times> int) \<Rightarrow> int \<Rightarrow> int \<Rightarrow> AdvancedBenchmark \<times> AdvancedBenchmark \<Rightarrow>
   AdvancedBenchmark \<times> AdvancedBenchmark" where
  "benchmark_runs elapsed runs run benches =
     (if run < runs
      then benchmark_runs elapsed runs (run + 1)
             (add_measurement (real_of_int (fst (elapsed run)) / 1000) (fst benches),
              add_measurement (real_of_int (snd (elapsed run)) / 1000) (snd benches))
      else benches)"
  by pat_completeness auto
termination
  by (relation "measure (\<lambda>(elapsed, runs, run, benches). nat (runs - run))") auto

declare benchmark_runs.simps [simp del]

definition benchmark_serialization_comprehensive ::
  "(int \<Rightarrow> int \<times> int) \<Rightarrow> 'a list \<Rightarrow> int \<Rightarrow>
   harness_error + BenchmarkResult \<times> BenchmarkResult \<times> ieee_double" where
  "benchmark_serialization_comprehensive elapsed objects runs =
     (let benches = benchmark_runs elapsed runs 0 (new_AdvancedBenchmark, new_AdvancedBenchmark);
          reflection_result = get_result (fst benches) (length objects);
          manual_result = get_result (snd benches) (length objects);
          overhead = overhead_comprehensive reflection_result manual_result
      in Inr (reflection_result, manual_result, overhead))"

section \<open>binding\_traditional.cpp and binding\_reflection.cpp: the observable data model\<close>

text \<open>
  Both files declare the same \<^verbatim>\<open>DataModel\<close> (the members are private in one and public
  in the other). A callback is a \<^verbatim>\<open>std::function<void()>\<close>: it acts on the rest of the
  program's state, of type \<open>'w\<close>, and does not touch the model that notifies it. A
  setter therefore maps the model and that state to the new model and the new state.
\<close>

record 'w DataModel =
  name_m :: string
  value_m :: int
  active_m :: bool
  name_changed_callbacks :: "('w \<Rightarrow> 'w) list"
  value_changed_callbacks :: "('w \<Rightarrow> 'w) list"
  active_changed_callbacks :: "('w \<Rightarrow> 'w) list"

text \<open>\<^verbatim>\<open>for (auto& callback : callbacks) callback();\<close>\<close>

definition run_callbacks :: "('w \<Rightarrow> 'w) list \<Rightarrow> 'w \<Rightarrow> 'w" where
  "run_callbacks callbacks w = foldl (\<lambda>w callback. callback w) w callbacks"

definition set_name :: "string \<Rightarrow> 'w DataModel \<times> 'w \<Rightarrow> 'w DataModel \<times> 'w" where
  "set_name new_name mw =
     (if name_m (fst mw) \<noteq> new_name
      then ((fst mw)\<lparr>name_m := new_name\<rparr>,
            run_callbacks (name_changed_callbacks (fst mw)) (snd mw))
      else mw)"

definition set_value :: "int \<Rightarrow> 'w DataModel \<times> 'w \<Rightarrow> 'w DataModel \<times> 'w" where
  "set_value new_value mw =
     (if value_m (fst mw) \<noteq> new_value
      then ((fst mw)\<lparr>value_m := new_value\<rparr>,
            run_callbacks (value_changed_callbacks (fst mw)) (snd mw))
      else mw)"

definition set_active :: "bool \<Rightarrow> 'w DataModel \<times> 'w \<Rightarrow> 'w DataModel \<times> 'w" where
  "set_active new_active mw =
     (if active_m (fst mw) \<noteq> new_active
      then ((fst mw)\<lparr>active_m := new_active\<rparr>,
            run_callbacks (active_changed_callbacks (fst mw)) (snd mw))
      else mw)"

definition bind_name_changed :: "('w \<Rightarrow> 'w) \<Rightarrow> 'w DataModel \<Rightarrow> 'w DataModel" where
  "bind_name_changed callback m =
     m\<lparr>name_changed_callbacks := name_changed_callbacks m @ [callback]\<rparr>"

definition bind_value_changed :: "('w \<Rightarrow> 'w) \<Rightarrow> 'w DataModel \<Rightarrow> 'w DataModel" where
  "bind_value_changed callback m =
     m\<lparr>value_changed_callbacks := value_changed_callbacks m @ [callback]\<rparr>"

definition bind_active_changed :: "('w \<Rightarrow> 'w) \<Rightarrow> 'w DataModel \<Rightarrow> 'w DataModel" where
  "bind_active_changed callback m =
     m\<lparr>active_changed_callbacks := active_changed_callbacks m @ [callback]\<rparr>"

text \<open>
  An observer used to state which callbacks ran and in which order: a callback that
  appends its label to a trace.
\<close>

definition recording_callback :: "'k \<Rightarrow> 'k list \<Rightarrow> 'k list" where
  "recording_callback k trace = trace @ [k]"

section \<open>The output format in the words of the specification\<close>

text \<open>
  These definitions follow the specification, not the source; the serializers are
  compared with them. \<open>render_object\<close> is the specification's object: name and value
  pairs \<^verbatim>\<open>"name":value\<close>, separated by commas and wrapped in braces, in the order of
  the list. \<open>two_decimals\<close> holds of a text in fixed-point notation with exactly two
  digits after the decimal point: an optional minus sign, one digit or more, the point,
  two digits.
\<close>

fun comma_separated :: "string list \<Rightarrow> string" where
  "comma_separated [] = []"
| "comma_separated [x] = x"
| "comma_separated (x # y # ys) = x @ '','' @ comma_separated (y # ys)"

definition render_object :: "(string \<times> string) list \<Rightarrow> string" where
  "render_object pairs =
     ''{'' @ comma_separated (map (\<lambda>(n, v). ''\"'' @ n @ ''\":'' @ v) pairs) @ ''}''"

definition quoted :: "string \<Rightarrow> string" where
  "quoted s = ''\"'' @ s @ ''\"''"

definition is_digit :: "char \<Rightarrow> bool" where
  "is_digit c = (c \<in> set ''0123456789'')"

definition unsigned_digits :: "string \<Rightarrow> bool" where
  "unsigned_digits s = (s \<noteq> [] \<and> list_all is_digit s)"

definition two_decimals :: "string \<Rightarrow> bool" where
  "two_decimals s =
     (case rev s of
        d2 # d1 # dot # ip \<Rightarrow>
          is_digit d2 \<and> is_digit d1 \<and> dot = CHR ''.'' \<and>
          (unsigned_digits (rev ip) \<or>
           (case rev ip of c # ds \<Rightarrow> c = CHR ''-'' \<and> unsigned_digits ds | [] \<Rightarrow> False))
      | _ \<Rightarrow> False)"

section \<open>Evaluating the numeric output\<close>

lemma last_digits_numeral:
  "last_digits (numeral k) n = last_digits (pred_numeral k) (n div 10) @ [digit_char (n mod 10)]"
  by (simp only: numeral_eq_Suc [of k] last_digits.simps)

lemmas number_simps = fmt_general_def fmt_exp_def fmt_rounded_def fmt_digits_def fmt_fixed_def
  dec_exponent_def scale_down.simps scale_up.simps scale10_def round_half_even_def
  fraction_part_def show_int_def show_nat.simps digit_char_def last_digits_numeral

lemma is_digit_digit_char: "d < 10 \<Longrightarrow> is_digit (digit_char d)"
proof -
  assume "d < 10"
  then have "d \<in> {0, 1, 2, 3, 4, 5, 6, 7, 8, 9}" by auto
  then show ?thesis
    by (auto simp: is_digit_def digit_char_def)
qed

lemma unsigned_digits_show_nat: "unsigned_digits (show_nat n)"
proof (induction n rule: show_nat.induct)
  case (1 n)
  show ?case
  proof (cases "n < 10")
    case True
    then show ?thesis
      by (subst show_nat.simps) (simp add: unsigned_digits_def is_digit_digit_char)
  next
    case False
    with 1 show ?thesis
      by (subst show_nat.simps) (simp add: unsigned_digits_def is_digit_digit_char)
  qed
qed

lemma last_digits_2:
  "last_digits 2 n = [digit_char (n div 10 mod 10), digit_char (n mod 10)]"
  by (simp add: last_digits_numeral)

lemma two_decimals_fmt_fixed: "two_decimals (fmt_fixed 2 x)"
proof -
  define n where "n = nat (round_half_even (\<bar>x\<bar> * 10\<^sup>2))"
  have f: "fmt_fixed 2 x = (if x < 0 then ''-'' else '''') @ show_nat (n div 10\<^sup>2) @
      CHR ''.'' # [digit_char (n div 10 mod 10), digit_char (n mod 10)]"
    by (simp add: fmt_fixed_def Let_def n_def last_digits_2)
  have d: "is_digit (digit_char (n div 10 mod 10))" "is_digit (digit_char (n mod 10))"
    by (simp_all add: is_digit_digit_char)
  show ?thesis
    using unsigned_digits_show_nat [of "n div 10\<^sup>2"] d
    by (simp add: f two_decimals_def)
qed

section \<open>The text of the serializers\<close>

lemma put_sequence_rest:
  "0 < i \<Longrightarrow> i \<le> length v \<Longrightarrow>
   put_sequence ser v i os = os\<lparr>buf := buf os @ concat (map (\<lambda>x. '','' @ ser x) (drop i v))\<rparr>"
proof (induction ser v i os rule: put_sequence.induct)
  case (1 ser v i os)
  show ?case
  proof (cases "i < length v")
    case True
    have d: "drop i v = v ! i # drop (Suc i) v" using True by (simp add: Cons_nth_drop_Suc)
    from 1 True show ?thesis
      by (subst put_sequence.simps) (simp add: d put_string_def)
  next
    case False
    with 1 show ?thesis by (subst put_sequence.simps) simp
  qed
qed

lemma put_sequence_Nil: "put_sequence ser [] 0 os = os"
  by (subst put_sequence.simps) simp

lemma put_sequence_Cons:
  "put_sequence ser (x # xs) 0 os =
     os\<lparr>buf := buf os @ ser x @ concat (map (\<lambda>y. '','' @ ser y) xs)\<rparr>"
  by (subst put_sequence.simps) (simp add: put_sequence_rest put_string_def)

lemma sequence_text_Nil: "sequence_text ser [] = []"
  by (simp add: sequence_text_def put_sequence_Nil str_def new_ostringstream_def)

lemma sequence_text_Cons:
  "sequence_text ser (x # xs) = ser x @ concat (map (\<lambda>y. '','' @ ser y) xs)"
  by (simp add: sequence_text_def put_sequence_Cons str_def new_ostringstream_def)

lemma put_sequence_text:
  "put_sequence ser v 0 os = os\<lparr>buf := buf os @ sequence_text ser v\<rparr>"
  by (cases v) (simp_all add: put_sequence_Nil put_sequence_Cons sequence_text_Nil sequence_text_Cons)

lemma length_sequence_text:
  "length (sequence_text ser v) = sum_list (map (\<lambda>x. length (ser x)) v) + (length v - 1)"
proof (cases v)
  case Nil
  then show ?thesis by (simp add: sequence_text_Nil)
next
  case (Cons x xs)
  have "length (concat (map (\<lambda>y. '','' @ ser y) xs)) = sum_list (map (\<lambda>x. length (ser x)) xs) + length xs"
    by (induction xs) simp_all
  with Cons show ?thesis by (simp add: sequence_text_Cons)
qed

lemmas stream_simps = str_def inserts_def new_ostringstream_def put_string_def put_int_def
  put_double_def std_fixed_def setprecision_def put_sequence_text

lemma Order_serialize_text:
  "ReflectionSerializer_Order_serialize obj =
     ''{\"order_id\":'' @ show_int (order_id obj) @ '',\"customer_name\":\"'' @ customer_name obj @
     ''\",\"total_amount\":'' @ fmt_general 6 (total_amount obj) @ '',\"order_date\":\"'' @
     order_date obj @ ''\",\"items\":['' @
     sequence_text ReflectionSerializer_Product_serialize (items obj) @ '']}''"
  by (simp add: ReflectionSerializer_Order_serialize_def stream_simps)

lemma demo_Company_serialize_text:
  "demo_ReflectionSerializer_Company_serialize obj =
     ''{\"name\":\"'' @ Company.name obj @ ''\",\"revenue\":'' @ fmt_general 6 (revenue obj) @
     '',\"employees\":['' @
     sequence_text demo_ReflectionSerializer_Person_serialize (employees obj) @ '']}''"
  by (simp add: demo_ReflectionSerializer_Company_serialize_def stream_simps)

lemma mock_Company_serialize_text:
  "mock_ReflectionSerializer_serialize (Company_obj obj :: 'a mock_object) =
     ''{\"name\":\"'' @ Company.name obj @ ''\",\"revenue\":'' @ fmt_general 6 (revenue obj) @
     '',\"employees\":['' @
     sequence_text (\<lambda>e. mock_ReflectionSerializer_serialize (Person_obj e :: 'a mock_object)) (employees obj) @ '']}''"
  by (simp add: mock_ReflectionSerializer_serialize_def stream_simps)

lemma Person_serialize_text:
  "ReflectionSerializer_Person_serialize obj =
     ''{\"name\":\"'' @ Person.name obj @ ''\",\"age\":'' @ show_int (age obj) @
     '',\"salary\":'' @ fmt_fixed 2 (salary obj) @ '',\"department\":\"'' @ department obj @
     ''\",\"is_active\":'' @ (if is_active obj then ''true'' else ''false'') @ ''}''"
  by (simp add: ReflectionSerializer_Person_serialize_def stream_simps)

lemma manual_Person_text:
  "manual_serialize_Person obj =
     ''{\"name\":\"'' @ Person.name obj @ ''\",\"age\":'' @ show_int (age obj) @
     '',\"salary\":'' @ fmt_general 6 (salary obj) @ '',\"department\":\"'' @ department obj @
     ''\",\"is_active\":'' @ (if is_active obj then ''true'' else ''false'') @ ''}''"
  by (simp add: manual_serialize_Person_def stream_simps)

lemma Product_serialize_text:
  "ReflectionSerializer_Product_serialize obj =
     ''{\"name\":\"'' @ Product.name obj @ ''\",\"price\":'' @ fmt_fixed 2 (price obj) @
     '',\"quantity\":'' @ show_int (quantity obj) @ '',\"category\":\"'' @ category obj @
     ''\",\"rating\":'' @ fmt_fixed 2 (rating obj) @ ''}''"
  by (simp add: ReflectionSerializer_Product_serialize_def stream_simps)

lemma manual_Product_text:
  "manual_serialize_Product obj =
     ''{\"name\":\"'' @ Product.name obj @ ''\",\"price\":'' @ fmt_general 6 (price obj) @
     '',\"quantity\":'' @ show_int (quantity obj) @ '',\"category\":\"'' @ category obj @
     ''\",\"rating\":'' @ fmt_general 6 (rating obj) @ ''}''"
  by (simp add: manual_serialize_Product_def stream_simps)

lemma demo_Person_serialize_text:
  "demo_ReflectionSerializer_Person_serialize obj =
     ''{\"name\":\"'' @ DemoPerson.name obj @ ''\",\"age\":'' @ show_int (DemoPerson.age obj) @
     '',\"salary\":'' @ fmt_general 6 (DemoPerson.salary obj) @ ''}''"
  by (simp add: demo_ReflectionSerializer_Person_serialize_def stream_simps)

lemma demo_manual_Person_text:
  "demo_manual_serialize_Person obj =
     ''{\"name\":\"'' @ DemoPerson.name obj @ ''\",\"age\":'' @ show_int (DemoPerson.age obj) @
     '',\"salary\":'' @ fmt_general 6 (DemoPerson.salary obj) @ ''}''"
  by (simp add: demo_manual_serialize_Person_def stream_simps)

lemma mock_Person_serialize_text:
  "mock_ReflectionSerializer_serialize (Person_obj obj) =
     ''{\"name\":\"'' @ DemoPerson.name obj @ ''\",\"age\":'' @ show_int (DemoPerson.age obj) @
     '',\"salary\":'' @ fmt_general 6 (DemoPerson.salary obj) @ ''}''"
  by (simp add: mock_ReflectionSerializer_serialize_def mock_Person_members_def stream_simps)

text \<open>
  C1, as the code has it: in comprehensive\_benchmark.cpp the generic and the manual
  serializer write the same text except for the floating-point fields, which the generic
  one writes in fixed notation with two decimals and the manual one in the stream's
  default notation. For a \<^verbatim>\<open>Person\<close> the two outputs are equal exactly when the two
  notations of the salary are the same text; for a \<^verbatim>\<open>Product\<close> they are equal
  whenever the two notations agree on the price and on the rating. In the two demo
  programs the serializer of \<^verbatim>\<open>Person\<close> and the manual serialization always agree.
\<close>

theorem generic_and_manual_serializers:
  "(ReflectionSerializer_Person_serialize person = manual_serialize_Person person \<longleftrightarrow>
      fmt_fixed 2 (salary person) = fmt_general 6 (salary person)) \<and>
   (fmt_fixed 2 (price product) = fmt_general 6 (price product) \<and>
    fmt_fixed 2 (rating product) = fmt_general 6 (rating product) \<longrightarrow>
      ReflectionSerializer_Product_serialize product = manual_serialize_Product product) \<and>
   demo_ReflectionSerializer_Person_serialize demo_person =
     demo_manual_serialize_Person demo_person \<and>
   mock_ReflectionSerializer_serialize (Person_obj demo_person) =
     demo_manual_serialize_Person demo_person"
  by (simp add: Person_serialize_text manual_Person_text Product_serialize_text
      manual_Product_text demo_Person_serialize_text demo_manual_Person_text
      mock_Person_serialize_text)

text \<open>A salary of 1.25, a price of 9.99 and a rating of 4.25 read the same in both notations.\<close>

theorem generic_and_manual_serializers_witness:
  "ReflectionSerializer_Person_serialize
     \<lparr>Person.name = ''Alice'', age = 30, salary = 1.25, department = ''IT'', is_active = True\<rparr> =
   manual_serialize_Person
     \<lparr>Person.name = ''Alice'', age = 30, salary = 1.25, department = ''IT'', is_active = True\<rparr> \<and>
   ReflectionSerializer_Product_serialize
     \<lparr>Product.name = ''Pen'', price = 9.99, quantity = 3, category = ''Office'', rating = 4.25\<rparr> =
   manual_serialize_Product
     \<lparr>Product.name = ''Pen'', price = 9.99, quantity = 3, category = ''Office'', rating = 4.25\<rparr>"
proof -
  let ?p = "\<lparr>Person.name = ''Alice'', age = 30, salary = 1.25, department = ''IT'',
    is_active = True\<rparr>"
  let ?q = "\<lparr>Product.name = ''Pen'', price = 9.99, quantity = 3, category = ''Office'',
    rating = 4.25\<rparr>"
  note t = generic_and_manual_serializers [of ?p ?q undefined]
  have e1: "fmt_fixed 2 (salary ?p) = fmt_general 6 (salary ?p)"
    by (simp add: number_simps)
  have e2: "fmt_fixed 2 (price ?q) = fmt_general 6 (price ?q) \<and>
      fmt_fixed 2 (rating ?q) = fmt_general 6 (rating ?q)"
    by (simp add: number_simps)
  have 1: "ReflectionSerializer_Person_serialize ?p = manual_serialize_Person ?p"
    using t [THEN conjunct1] e1 by (rule iffD2)
  have 2: "ReflectionSerializer_Product_serialize ?q = manual_serialize_Product ?q"
    using t [THEN conjunct2, THEN conjunct1] e2 by (rule mp)
  from 1 2 show ?thesis by (rule conjI)
qed

text \<open>
  C1 as stated fails: for Alice, aged 30, with a salary of 75000.0, the generic serializer
  writes the salary as 75000.00 and the manual one as 75000.
\<close>

theorem generic_and_manual_Person_differ:
  "ReflectionSerializer_Person_serialize
     \<lparr>Person.name = ''Alice'', age = 30, salary = 75000, department = ''IT'', is_active = True\<rparr> =
     ''{\"name\":\"Alice\",\"age\":30,\"salary\":75000.00,\"department\":\"IT\",\"is_active\":true}'' \<and>
   manual_serialize_Person
     \<lparr>Person.name = ''Alice'', age = 30, salary = 75000, department = ''IT'', is_active = True\<rparr> =
     ''{\"name\":\"Alice\",\"age\":30,\"salary\":75000,\"department\":\"IT\",\"is_active\":true}'' \<and>
   ReflectionSerializer_Person_serialize
     \<lparr>Person.name = ''Alice'', age = 30, salary = 75000, department = ''IT'', is_active = True\<rparr> \<noteq>
   manual_serialize_Person
     \<lparr>Person.name = ''Alice'', age = 30, salary = 75000, department = ''IT'', is_active = True\<rparr>"
  by (simp add: Person_serialize_text manual_Person_text number_simps)

text \<open>
  C2, as the code has it: fixed notation with precision 2 always has exactly two digits
  after the decimal point, and the generic serializers of comprehensive\_benchmark.cpp
  write \<^verbatim>\<open>Person.salary\<close>, \<^verbatim>\<open>Product.price\<close> and \<^verbatim>\<open>Product.rating\<close> in it (the
  rating because \<^verbatim>\<open>std::fixed\<close> and \<^verbatim>\<open>std::setprecision(2)\<close>, inserted before the
  price, stay in force on the stream). The manual serializers write their floating-point
  fields in the stream's default notation of six significant digits.
\<close>

theorem float_fields_notation:
  "two_decimals (fmt_fixed 2 x) \<and>
   ReflectionSerializer_Person_serialize person =
     ''{\"name\":\"'' @ Person.name person @ ''\",\"age\":'' @ show_int (age person) @
     '',\"salary\":'' @ fmt_fixed 2 (salary person) @ '',\"department\":\"'' @
     department person @ ''\",\"is_active\":'' @
     (if is_active person then ''true'' else ''false'') @ ''}'' \<and>
   ReflectionSerializer_Product_serialize product =
     ''{\"name\":\"'' @ Product.name product @ ''\",\"price\":'' @ fmt_fixed 2 (price product) @
     '',\"quantity\":'' @ show_int (quantity product) @ '',\"category\":\"'' @
     category product @ ''\",\"rating\":'' @ fmt_fixed 2 (rating product) @ ''}'' \<and>
   manual_serialize_Person person =
     ''{\"name\":\"'' @ Person.name person @ ''\",\"age\":'' @ show_int (age person) @
     '',\"salary\":'' @ fmt_general 6 (salary person) @ '',\"department\":\"'' @
     department person @ ''\",\"is_active\":'' @
     (if is_active person then ''true'' else ''false'') @ ''}'' \<and>
   manual_serialize_Product product =
     ''{\"name\":\"'' @ Product.name product @ ''\",\"price\":'' @
     fmt_general 6 (price product) @ '',\"quantity\":'' @ show_int (quantity product) @
     '',\"category\":\"'' @ category product @ ''\",\"rating\":'' @
     fmt_general 6 (rating product) @ ''}''"
  using two_decimals_fmt_fixed [of x]
  by (simp add: Person_serialize_text manual_Person_text Product_serialize_text
      manual_Product_text)

text \<open>A price of 1.0 is written 1.00 and a rating of 4.5 is written 4.50.\<close>

theorem float_fields_notation_witness:
  "two_decimals (fmt_fixed 2 1) \<and> fmt_fixed 2 1 = ''1.00'' \<and>
   ReflectionSerializer_Product_serialize
     \<lparr>Product.name = ''Pen'', price = 1, quantity = 3, category = ''Office'', rating = 4.5\<rparr> =
   ''{\"name\":\"Pen\",\"price\":1.00,\"quantity\":3,\"category\":\"Office\",\"rating\":4.50}''"
proof -
  let ?q = "\<lparr>Product.name = ''Pen'', price = 1, quantity = 3, category = ''Office'',
    rating = 4.5\<rparr>"
  note t = float_fields_notation [of 1 undefined ?q]
  have a: "two_decimals (fmt_fixed 2 1)"
    by (rule t [THEN conjunct1])
  have b: "fmt_fixed 2 1 = ''1.00''"
    by (simp add: number_simps)
  have c: "ReflectionSerializer_Product_serialize ?q =
      ''{\"name\":\"Pen\",\"price\":1.00,\"quantity\":3,\"category\":\"Office\",\"rating\":4.50}''"
    by (subst t [THEN conjunct2, THEN conjunct2, THEN conjunct1]) (simp add: number_simps)
  from a b c show ?thesis by blast
qed

text \<open>
  C2 as stated fails: the manual serializer writes a price of 1.0 as 1 and a rating of
  4.5 as 4.5, neither with two digits after a decimal point.
\<close>

theorem manual_Product_default_notation:
  "manual_serialize_Product
     \<lparr>Product.name = ''Pen'', price = 1, quantity = 3, category = ''Office'', rating = 4.5\<rparr> =
   ''{\"name\":\"Pen\",\"price\":1,\"quantity\":3,\"category\":\"Office\",\"rating\":4.5}'' \<and>
   fmt_general 6 1 = ''1'' \<and> \<not> two_decimals (fmt_general 6 1) \<and>
   fmt_general 6 4.5 = ''4.5'' \<and> \<not> two_decimals (fmt_general 6 4.5)"
  by (simp add: manual_Product_text number_simps two_decimals_def)

text \<open>
  C6: the text written for a sequence field. A sequence without elements yields nothing
  between the brackets, a sequence of one element yields that element's text without a
  separator, and every further element follows exactly one comma: \<open>N\<close> elements are
  separated by \<open>N - 1\<close> commas, so the text is as long as the elements' texts together
  plus \<open>N - 1\<close>. This is the text between \<open>[\<close> and \<open>]\<close> in the serializers of
  \<^verbatim>\<open>Order\<close> (comprehensive\_benchmark.cpp) and \<^verbatim>\<open>Company\<close> (both demo programs).
\<close>

theorem sequence_separators:
  "sequence_text ser [] = [] \<and>
   sequence_text ser [x] = ser x \<and>
   sequence_text ser (x # y # ys) = ser x @ '','' @ sequence_text ser (y # ys) \<and>
   length (sequence_text ser v) = sum_list (map (\<lambda>e. length (ser e)) v) + (length v - 1) \<and>
   ReflectionSerializer_Order_serialize order =
     ''{\"order_id\":'' @ show_int (order_id order) @ '',\"customer_name\":\"'' @
     customer_name order @ ''\",\"total_amount\":'' @ fmt_general 6 (total_amount order) @
     '',\"order_date\":\"'' @ order_date order @ ''\",\"items\":['' @
     sequence_text ReflectionSerializer_Product_serialize (items order) @ '']}'' \<and>
   demo_ReflectionSerializer_Company_serialize company =
     ''{\"name\":\"'' @ Company.name company @ ''\",\"revenue\":'' @
     fmt_general 6 (revenue company) @ '',\"employees\":['' @
     sequence_text demo_ReflectionSerializer_Person_serialize (employees company) @ '']}'' \<and>
   mock_ReflectionSerializer_serialize (Company_obj company :: 'a mock_object) =
     ''{\"name\":\"'' @ Company.name company @ ''\",\"revenue\":'' @
     fmt_general 6 (revenue company) @ '',\"employees\":['' @
     sequence_text (\<lambda>e. mock_ReflectionSerializer_serialize (Person_obj e :: 'a mock_object))
       (employees company) @ '']}''"
  by (simp add: sequence_text_Nil sequence_text_Cons length_sequence_text Order_serialize_text
      demo_Company_serialize_text mock_Company_serialize_text)

text \<open>A company with no, one and two employees.\<close>

theorem sequence_separators_witness:
  "demo_ReflectionSerializer_Company_serialize
     \<lparr>Company.name = ''Acme'', employees = [], revenue = 2\<rparr> =
     ''{\"name\":\"Acme\",\"revenue\":2,\"employees\":[]}'' \<and>
   demo_ReflectionSerializer_Company_serialize
     \<lparr>Company.name = ''Acme'',
      employees = [\<lparr>DemoPerson.name = ''Al'', age = 30, salary = 5\<rparr>], revenue = 2\<rparr> =
     ''{\"name\":\"Acme\",\"revenue\":2,\"employees\":[{\"name\":\"Al\",\"age\":30,\"salary\":5}]}'' \<and>
   demo_ReflectionSerializer_Company_serialize
     \<lparr>Company.name = ''Acme'',
      employees = [\<lparr>DemoPerson.name = ''Al'', age = 30, salary = 5\<rparr>,
                   \<lparr>DemoPerson.name = ''Bo'', age = 25, salary = 4\<rparr>], revenue = 2\<rparr> =
     ''{\"name\":\"Acme\",\"revenue\":2,\"employees\":[{\"name\":\"Al\",\"age\":30,\"salary\":5},{\"name\":\"Bo\",\"age\":25,\"salary\":4}]}''"
proof -
  let ?ser = demo_ReflectionSerializer_Person_serialize
  let ?al = "\<lparr>DemoPerson.name = ''Al'', age = 30, salary = 5\<rparr>"
  let ?bo = "\<lparr>DemoPerson.name = ''Bo'', age = 25, salary = 4\<rparr>"
  have al: "?ser ?al = ''{\"name\":\"Al\",\"age\":30,\"salary\":5}''"
    and bo: "?ser ?bo = ''{\"name\":\"Bo\",\"age\":25,\"salary\":4}''"
    by (simp_all add: demo_ReflectionSerializer_Person_serialize_def stream_simps number_simps)
  have two: "fmt_general 6 2 = ''2''" by (simp add: number_simps)
  note s = sequence_separators [of ?ser ?al ?bo "[]" "[]" undefined]
  note t = sequence_separators [of ?ser ?bo ?bo "[]" "[]" undefined undefined]
  have seq0: "sequence_text ?ser [] = []"
    by (rule s [THEN conjunct1])
  have seq1: "sequence_text ?ser [?al] = ?ser ?al"
    by (rule s [THEN conjunct2, THEN conjunct1])
  have seq1': "sequence_text ?ser [?bo] = ?ser ?bo"
    by (rule t [THEN conjunct2, THEN conjunct1])
  have seq2: "sequence_text ?ser [?al, ?bo] = ?ser ?al @ '','' @ sequence_text ?ser [?bo]"
    by (rule s [THEN conjunct2, THEN conjunct2, THEN conjunct1])
  have c: "demo_ReflectionSerializer_Company_serialize c =
     ''{\"name\":\"'' @ Company.name c @ ''\",\"revenue\":'' @
     fmt_general 6 (revenue c) @ '',\"employees\":['' @
     sequence_text ?ser (employees c) @ '']}''" for c
    by (rule s [THEN conjunct2, THEN conjunct2, THEN conjunct2, THEN conjunct2, THEN conjunct2,
          THEN conjunct1])
  show ?thesis
    by (simp add: c seq0 seq1 seq1' seq2 al bo two)
qed

text \<open>
  C7, as the code has it: the output of every serializer of comprehensive\_benchmark.cpp is
  the brace-wrapped, comma-separated sequence of name and value pairs. For \<^verbatim>\<open>Person\<close>
  and \<^verbatim>\<open>Product\<close> the fields stand in the order of \<^verbatim>\<open>get_member_names\<close>. For
  \<^verbatim>\<open>Order\<close> the scalar fields stand in that order and the sequence field \<open>items\<close>
  comes last: order\_id, customer\_name, total\_amount, order\_date, items.
\<close>

theorem serialized_field_order:
  "ReflectionSerializer_Person_serialize person =
     render_object (zip get_member_names_Person
       [quoted (Person.name person), show_int (age person), fmt_fixed 2 (salary person),
        quoted (department person), if is_active person then ''true'' else ''false'']) \<and>
   ReflectionSerializer_Product_serialize product =
     render_object (zip get_member_names_Product
       [quoted (Product.name product), fmt_fixed 2 (price product), show_int (quantity product),
        quoted (category product), fmt_fixed 2 (rating product)]) \<and>
   ReflectionSerializer_Order_serialize order =
     render_object (zip (filter (\<lambda>n. n \<noteq> ''items'') get_member_names_Order @ [''items''])
       [show_int (order_id order), quoted (customer_name order),
        fmt_general 6 (total_amount order), quoted (order_date order),
        ''['' @ sequence_text ReflectionSerializer_Product_serialize (items order) @ '']'']) \<and>
   filter (\<lambda>n. n \<noteq> ''items'') get_member_names_Order @ [''items''] =
     [''order_id'', ''customer_name'', ''total_amount'', ''order_date'', ''items'']"
  by (simp add: Person_serialize_text Product_serialize_text Order_serialize_text
      render_object_def quoted_def get_member_names_Person_def get_member_names_Product_def
      get_member_names_Order_def)

theorem serialized_field_order_witness:
  "ReflectionSerializer_Order_serialize
     \<lparr>order_id = 7, customer_name = ''Bob'', items = [], total_amount = 12.5,
      order_date = ''2024-01-01''\<rparr> =
   ''{\"order_id\":7,\"customer_name\":\"Bob\",\"total_amount\":12.5,\"order_date\":\"2024-01-01\",\"items\":[]}''"
proof -
  let ?o = "\<lparr>order_id = 7, customer_name = ''Bob'', items = [], total_amount = 12.5,
      order_date = ''2024-01-01''\<rparr>"
  have "ReflectionSerializer_Order_serialize ?o =
     render_object (zip (filter (\<lambda>n. n \<noteq> ''items'') get_member_names_Order @ [''items''])
       [show_int (order_id ?o), quoted (customer_name ?o),
        fmt_general 6 (total_amount ?o), quoted (order_date ?o),
        ''['' @ sequence_text ReflectionSerializer_Product_serialize (items ?o) @ '']''])"
    by (rule serialized_field_order [THEN conjunct2, THEN conjunct2, THEN conjunct1])
  then show ?thesis
    by (simp add: render_object_def quoted_def get_member_names_Order_def sequence_text_Nil
        number_simps)
qed

text \<open>
  C7 as stated fails: the serialized order is not the object whose fields stand in the
  order of \<^verbatim>\<open>get_member_names<Order>\<close>, which has \<open>items\<close> in the third place.
\<close>

theorem order_fields_not_in_member_order:
  "ReflectionSerializer_Order_serialize
     \<lparr>order_id = 7, customer_name = ''Bob'', items = [], total_amount = 12.5,
      order_date = ''2024-01-01''\<rparr> =
     ''{\"order_id\":7,\"customer_name\":\"Bob\",\"total_amount\":12.5,\"order_date\":\"2024-01-01\",\"items\":[]}'' \<and>
   render_object (zip get_member_names_Order
     [''7'', ''\"Bob\"'', ''[]'', ''12.5'', ''\"2024-01-01\"'']) =
     ''{\"order_id\":7,\"customer_name\":\"Bob\",\"items\":[],\"total_amount\":12.5,\"order_date\":\"2024-01-01\"}'' \<and>
   ReflectionSerializer_Order_serialize
     \<lparr>order_id = 7, customer_name = ''Bob'', items = [], total_amount = 12.5,
      order_date = ''2024-01-01''\<rparr> \<noteq>
   render_object (zip get_member_names_Order
     [''7'', ''\"Bob\"'', ''[]'', ''12.5'', ''\"2024-01-01\"''])"
proof -
  show ?thesis
    by (simp add: Order_serialize_text sequence_text_Nil render_object_def
        get_member_names_Order_def number_simps)
qed

text \<open>
  C8: serializing an object of a type with no registered member, with the generic
  serializer of mock\_reflection\_demo.cpp, yields exactly the two characters \<open>{}\<close>.
\<close>

theorem mock_serialize_no_members:
  "mock_get_member_names obj = [] \<Longrightarrow> mock_ReflectionSerializer_serialize obj = ''{}''"
  by (cases obj) (simp_all add: mock_ReflectionSerializer_serialize_def stream_simps)

theorem mock_serialize_no_members_witness:
  "mock_get_member_names (Other_obj ()) = [] \<and> mock_member_count (Other_obj ()) = 0 \<and>
   mock_ReflectionSerializer_serialize (Other_obj ()) = ''{}''"
  using mock_serialize_no_members [of "Other_obj ()"] by simp

section \<open>The harness statistics\<close>

lemma foldl_smallest:
  "foldl (\<lambda>smallest x. if x < smallest then x else smallest) a xs = Min (insert a (set xs))"
proof (induction xs arbitrary: a)
  case Nil
  show ?case by simp
next
  case (Cons x xs)
  have "Min (insert (if x < a then x else a) (set xs)) = Min (insert a (insert x (set xs)))"
    by (cases "set xs = {}") (auto simp: min_def)
  with Cons show ?case by simp
qed

lemma foldl_largest:
  "foldl (\<lambda>largest x. if largest < x then x else largest) a xs = Max (insert a (set xs))"
proof (induction xs arbitrary: a)
  case Nil
  show ?case by simp
next
  case (Cons x xs)
  have "Max (insert (if a < x then x else a) (set xs)) = Max (insert a (insert x (set xs)))"
    by (cases "set xs = {}") (auto simp: max_def)
  with Cons show ?case by simp
qed

lemma min_element_Min: "xs \<noteq> [] \<Longrightarrow> min_element xs = Min (set xs)"
  by (cases xs) (simp_all add: min_element_def foldl_smallest)

lemma max_element_Max: "xs \<noteq> [] \<Longrightarrow> max_element xs = Max (set xs)"
  by (cases xs) (simp_all add: max_element_def foldl_largest)

lemma foldl_plus_map: "foldl (\<lambda>acc x. acc + g x) a xs = a + sum_list (map g xs)"
  by (induction xs arbitrary: a) (simp_all add: add.assoc)

lemma accumulate_sum_list: "accumulate xs a = a + sum_list xs"
  using foldl_plus_map [of "\<lambda>x. x" a xs] by (simp add: accumulate_def)

lemma get_result_iterations: "iterations (get_result b n) = length (measurements_m b)"
  by (simp add: get_result_def Let_def)

lemma get_result_data_size: "data_size (get_result b n) = n"
  by (simp add: get_result_def Let_def)

text \<open>
  C3: for every non-empty sequence of recorded trial durations, the result of
  \<^verbatim>\<open>get_result\<close> has the smallest trial as its minimum, the largest as its maximum, the
  sum divided by the number of trials as its mean, and the population standard deviation
  \<open>sqrt (sum ((t - mean)^2) / trial_count)\<close> as its standard deviation.
\<close>

theorem get_result_statistics:
  assumes "measurements_m b \<noteq> []"
  shows "min_time_ms (get_result b n) = Min (set (measurements_m b)) \<and>
         max_time_ms (get_result b n) = Max (set (measurements_m b)) \<and>
         avg_time_ms (get_result b n) =
           sum_list (measurements_m b) / real (length (measurements_m b)) \<and>
         std_dev_ms (get_result b n) =
           sqrt (sum_list
                   (map (\<lambda>t. (t - sum_list (measurements_m b) / real (length (measurements_m b)))\<^sup>2)
                      (measurements_m b)) /
                 real (length (measurements_m b))) \<and>
         iterations (get_result b n) = length (measurements_m b) \<and>
         data_size (get_result b n) = n"
  using assms
  by (simp add: get_result_def Let_def min_element_Min max_element_Max accumulate_sum_list
      foldl_plus_map power2_eq_square)

text \<open>The trials 10, 20 and 30 ms: minimum 10, maximum 30, mean 20, deviation \<open>sqrt (200 / 3)\<close>.\<close>

theorem get_result_statistics_witness:
  "min_time_ms (get_result \<lparr>measurements_m = [10, 20, 30]\<rparr> 100) = 10 \<and>
   max_time_ms (get_result \<lparr>measurements_m = [10, 20, 30]\<rparr> 100) = 30 \<and>
   avg_time_ms (get_result \<lparr>measurements_m = [10, 20, 30]\<rparr> 100) = 20 \<and>
   std_dev_ms (get_result \<lparr>measurements_m = [10, 20, 30]\<rparr> 100) = sqrt (200 / 3) \<and>
   iterations (get_result \<lparr>measurements_m = [10, 20, 30]\<rparr> 100) = 3"
  using get_result_statistics [of "\<lparr>measurements_m = [10, 20, 30]\<rparr>" 100]
  by simp

text \<open>
  C9: \<^verbatim>\<open>get_result\<close> on a harness without measurements, be it new, cleared or otherwise
  empty, raises nothing: it returns the result whose four statistics are 0.0 and whose
  iteration count is 0, with the given data size passed through.
\<close>

theorem get_result_no_measurements:
  "get_result new_AdvancedBenchmark n =
     \<lparr>min_time_ms = 0, max_time_ms = 0, avg_time_ms = 0, std_dev_ms = 0, iterations = 0,
      data_size = n\<rparr> \<and>
   get_result (clear b) n =
     \<lparr>min_time_ms = 0, max_time_ms = 0, avg_time_ms = 0, std_dev_ms = 0, iterations = 0,
      data_size = n\<rparr> \<and>
   (measurements_m b = [] \<longrightarrow>
      get_result b n =
        \<lparr>min_time_ms = 0, max_time_ms = 0, avg_time_ms = 0, std_dev_ms = 0, iterations = 0,
         data_size = n\<rparr>)"
  by (simp add: get_result_def new_AdvancedBenchmark_def clear_def)

theorem get_result_no_measurements_witness:
  "get_result (clear (add_measurement 12 (add_measurement 5 new_AdvancedBenchmark))) 100 =
     \<lparr>min_time_ms = 0, max_time_ms = 0, avg_time_ms = 0, std_dev_ms = 0, iterations = 0,
      data_size = 100\<rparr> \<and>
   get_result \<lparr>measurements_m = []\<rparr> 100 =
     \<lparr>min_time_ms = 0, max_time_ms = 0, avg_time_ms = 0, std_dev_ms = 0, iterations = 0,
      data_size = 100\<rparr>"
  using
    get_result_no_measurements
      [of 100 "add_measurement 12 (add_measurement 5 new_AdvancedBenchmark)"]
    get_result_no_measurements [of 100 "\<lparr>measurements_m = []\<rparr>"]
  by simp

section \<open>The comparison of the two paths\<close>

text \<open>
  C4: the overhead is \<open>(generic / specialized - 1) * 100\<close> and is exactly 0 when the
  specialized time is 0, in every comparison routine. The routine of
  mock\_reflection\_demo.cpp has no guard: with a manual time of 0 ms it yields an infinity
  for a positive generic time and NaN for a generic time of 0 ms, where the guarded
  routine of working\_reflection\_demo.cpp yields 0.
\<close>

theorem overhead_mock_demo_zero_manual_time:
  "overhead_mock_demo 1 0 = PlusInfinity \<and> overhead_mock_demo 0 0 = NaN \<and>
   overhead_working_demo 1 0 = Finite 0 \<and> overhead_working_demo 0 0 = Finite 0"
  by (simp add: overhead_mock_demo_def overhead_working_demo_def ieee_divide_def)

lemma benchmark_runs_done:
  "runs \<le> run \<Longrightarrow> benchmark_runs elapsed runs run benches = benches"
  by (simp add: benchmark_runs.simps)

lemma benchmark_runs_length:
  "length (measurements_m (fst (benchmark_runs elapsed runs run benches))) =
     length (measurements_m (fst benches)) + nat (runs - run) \<and>
   length (measurements_m (snd (benchmark_runs elapsed runs run benches))) =
     length (measurements_m (snd benches)) + nat (runs - run)"
proof (induction elapsed runs run benches rule: benchmark_runs.induct)
  case (1 elapsed runs run benches)
  show ?case
  proof (cases "run < runs")
    case True
    have "nat (runs - run) = Suc (nat (runs - (run + 1)))" using True by linarith
    with 1 [OF True] True show ?thesis
      by (subst (1 2) benchmark_runs.simps) (simp add: add_measurement_def)
  next
    case False
    then show ?thesis by (simp add: benchmark_runs.simps)
  qed
qed

text \<open>
  C5, as the code has it: the harness accepts every trial count and never fails. It
  returns two results with as many iterations as trials were asked for (none for a count
  of 0 or less) and with the number of objects as their data size; with a trial count of
  0 or less both results are the all-zero result and the overhead is 0.
\<close>

theorem benchmark_serialization_comprehensive_completes:
  "\<exists>reflection_result manual_result overhead.
     benchmark_serialization_comprehensive elapsed objects runs =
       Inr (reflection_result, manual_result, overhead) \<and>
     iterations reflection_result = nat runs \<and> iterations manual_result = nat runs \<and>
     data_size reflection_result = length objects \<and> data_size manual_result = length objects \<and>
     (runs \<le> 0 \<longrightarrow>
        reflection_result =
          \<lparr>min_time_ms = 0, max_time_ms = 0, avg_time_ms = 0, std_dev_ms = 0, iterations = 0,
           data_size = length objects\<rparr> \<and>
        manual_result = reflection_result \<and> overhead = Finite 0)"
proof -
  let ?benches = "benchmark_runs elapsed runs 0 (new_AdvancedBenchmark, new_AdvancedBenchmark)"
  let ?r = "get_result (fst ?benches) (length objects)"
  let ?m = "get_result (snd ?benches) (length objects)"
  have eq: "benchmark_serialization_comprehensive elapsed objects runs =
      Inr (?r, ?m, overhead_comprehensive ?r ?m)"
    by (simp add: benchmark_serialization_comprehensive_def Let_def)
  have len: "length (measurements_m (fst ?benches)) = nat runs"
    "length (measurements_m (snd ?benches)) = nat runs"
    using benchmark_runs_length [of elapsed runs 0 "(new_AdvancedBenchmark, new_AdvancedBenchmark)"]
    by (simp_all add: new_AdvancedBenchmark_def)
  have counts: "iterations ?r = nat runs" "iterations ?m = nat runs"
    "data_size ?r = length objects" "data_size ?m = length objects"
    by (simp_all add: get_result_iterations get_result_data_size len)
  have none: "?r = \<lparr>min_time_ms = 0, max_time_ms = 0, avg_time_ms = 0, std_dev_ms = 0,
        iterations = 0, data_size = length objects\<rparr> \<and> ?m = ?r \<and>
      overhead_comprehensive ?r ?m = Finite 0" if "runs \<le> 0"
  proof -
    have "?benches = (new_AdvancedBenchmark, new_AdvancedBenchmark)"
      using that by (rule benchmark_runs_done)
    then show ?thesis
      by (simp add: get_result_def new_AdvancedBenchmark_def overhead_comprehensive_def)
  qed
  from eq counts none show ?thesis by blast
qed

theorem benchmark_serialization_comprehensive_completes_witness:
  "benchmark_serialization_comprehensive (\<lambda>run. (1500, 1000)) [(), ()] (- 1) =
     Inr (\<lparr>min_time_ms = 0, max_time_ms = 0, avg_time_ms = 0, std_dev_ms = 0, iterations = 0,
           data_size = 2\<rparr>,
          \<lparr>min_time_ms = 0, max_time_ms = 0, avg_time_ms = 0, std_dev_ms = 0, iterations = 0,
           data_size = 2\<rparr>, Finite 0)"
  using benchmark_serialization_comprehensive_completes [of "\<lambda>run. (1500, 1000)" "[(), ()]" "- 1"]
  by auto

text \<open>
  C5 as stated fails: asked for 0 trials over two objects, the harness completes and
  produces the all-zero results; it does not fail with \<open>InvalidConfigurationError\<close>.
\<close>

theorem benchmark_serialization_comprehensive_zero_runs:
  "benchmark_serialization_comprehensive (\<lambda>run. (1500, 1000)) [(), ()] 0 =
     Inr (\<lparr>min_time_ms = 0, max_time_ms = 0, avg_time_ms = 0, std_dev_ms = 0, iterations = 0,
           data_size = 2\<rparr>,
          \<lparr>min_time_ms = 0, max_time_ms = 0, avg_time_ms = 0, std_dev_ms = 0, iterations = 0,
           data_size = 2\<rparr>, Finite 0) \<and>
   benchmark_serialization_comprehensive (\<lambda>run. (1500, 1000)) [(), ()] 0 \<noteq>
     Inl InvalidConfigurationError"
  by (simp add: benchmark_serialization_comprehensive_def Let_def benchmark_runs.simps
      get_result_def new_AdvancedBenchmark_def overhead_comprehensive_def)

section \<open>The observable data model\<close>

lemma run_callbacks_append:
  "run_callbacks (cbs @ cbs') w = run_callbacks cbs' (run_callbacks cbs w)"
  by (simp add: run_callbacks_def bind_name_changed_def)

lemma run_recording_callbacks: "run_callbacks (map recording_callback ks) trace = trace @ ks"
  by (induction ks arbitrary: trace) (simp_all add: run_callbacks_def recording_callback_def)

lemma bind_name_changed_all:
  "foldl (\<lambda>m k. bind_name_changed (recording_callback k) m) m0 ks =
     m0\<lparr>name_changed_callbacks := name_changed_callbacks m0 @ map recording_callback ks\<rparr>"
  by (induction ks arbitrary: m0) (simp_all add: bind_name_changed_def)

lemma bind_value_changed_all:
  "foldl (\<lambda>m k. bind_value_changed (recording_callback k) m) m0 ks =
     m0\<lparr>value_changed_callbacks := value_changed_callbacks m0 @ map recording_callback ks\<rparr>"
  by (induction ks arbitrary: m0) (simp_all add: bind_value_changed_def)

lemma bind_active_changed_all:
  "foldl (\<lambda>m k. bind_active_changed (recording_callback k) m) m0 ks =
     m0\<lparr>active_changed_callbacks := active_changed_callbacks m0 @ map recording_callback ks\<rparr>"
  by (induction ks arbitrary: m0) (simp_all add: bind_active_changed_def)

text \<open>
  C10: a setter of the data model notifies if and only if the new value differs from the
  stored one, and then runs its callbacks in the order of their registration. Here the
  model is \<open>m0\<close> with recording callbacks for the labels \<open>ks\<close> bound to it in this
  order, and \<open>trace\<close> is the record so far. With a value equal to the stored one the
  model and the trace stay as they are. With a different value the value is stored and
  the trace gains what the callbacks already in \<open>m0\<close> did, followed by \<open>ks\<close> in order;
  the callbacks of the other two properties do not run.
\<close>

theorem setters_notify_on_change:
  "set_name new_name (foldl (\<lambda>m k. bind_name_changed (recording_callback k) m) m0 ks, trace) =
     (if name_m m0 = new_name
      then (foldl (\<lambda>m k. bind_name_changed (recording_callback k) m) m0 ks, trace)
      else ((foldl (\<lambda>m k. bind_name_changed (recording_callback k) m) m0 ks)\<lparr>name_m := new_name\<rparr>,
            run_callbacks (name_changed_callbacks m0) trace @ ks)) \<and>
   set_value new_value (foldl (\<lambda>m k. bind_value_changed (recording_callback k) m) m0 ks, trace) =
     (if value_m m0 = new_value
      then (foldl (\<lambda>m k. bind_value_changed (recording_callback k) m) m0 ks, trace)
      else ((foldl (\<lambda>m k. bind_value_changed (recording_callback k) m) m0 ks)\<lparr>value_m := new_value\<rparr>,
            run_callbacks (value_changed_callbacks m0) trace @ ks)) \<and>
   set_active new_active (foldl (\<lambda>m k. bind_active_changed (recording_callback k) m) m0 ks, trace) =
     (if active_m m0 = new_active
      then (foldl (\<lambda>m k. bind_active_changed (recording_callback k) m) m0 ks, trace)
      else ((foldl (\<lambda>m k. bind_active_changed (recording_callback k) m) m0 ks)\<lparr>active_m := new_active\<rparr>,
            run_callbacks (active_changed_callbacks m0) trace @ ks))"
  by (simp add: set_name_def set_value_def set_active_def bind_name_changed_all
      bind_value_changed_all bind_active_changed_all run_callbacks_append run_recording_callbacks)

text \<open>
  Two callbacks bound to the name, one to the value: setting a new name runs the first
  two in order, setting the old name runs none.
\<close>

theorem setters_notify_on_change_witness:
  "snd (set_name ''new''
     (bind_name_changed (recording_callback 2) (bind_name_changed (recording_callback (1::nat))
        \<lparr>name_m = ''old'', value_m = 7, active_m = True, name_changed_callbacks = [],
         value_changed_callbacks = [recording_callback 9], active_changed_callbacks = []\<rparr>), [])) = [1, 2] \<and>
   name_m (fst (set_name ''new''
     (bind_name_changed (recording_callback 2) (bind_name_changed (recording_callback (1::nat))
        \<lparr>name_m = ''old'', value_m = 7, active_m = True, name_changed_callbacks = [],
         value_changed_callbacks = [recording_callback 9], active_changed_callbacks = []\<rparr>), []))) = ''new'' \<and>
   snd (set_name ''old''
     (bind_name_changed (recording_callback 2) (bind_name_changed (recording_callback (1::nat))
        \<lparr>name_m = ''old'', value_m = 7, active_m = True, name_changed_callbacks = [],
         value_changed_callbacks = [recording_callback 9], active_changed_callbacks = []\<rparr>), [])) = [] \<and>
   name_m (fst (set_name ''old''
     (bind_name_changed (recording_callback 2) (bind_name_changed (recording_callback (1::nat))
        \<lparr>name_m = ''old'', value_m = 7, active_m = True, name_changed_callbacks = [],
         value_changed_callbacks = [recording_callback 9], active_changed_callbacks = []\<rparr>), []))) = ''old''"
  using
    setters_notify_on_change [of "''new''"
      "\<lparr>name_m = ''old'', value_m = 7, active_m = True, name_changed_callbacks = [],
         value_changed_callbacks = [recording_callback 9], active_changed_callbacks = []\<rparr>"
      "[1::nat, 2]" "[]" 7 True, THEN conjunct1]
    setters_notify_on_change [of "''old''"
      "\<lparr>name_m = ''old'', value_m = 7, active_m = True, name_changed_callbacks = [],
         value_changed_callbacks = [recording_callback 9], active_changed_callbacks = []\<rparr>"
      "[1::nat, 2]" "[]" 7 True, THEN conjunct1]
  by (simp add: run_callbacks_def bind_name_changed_def)

end
